theory Spec2Isabelle
  imports Main "HOL-Library.AList"
begin

section \<open>JavaScript values\<close>

text \<open>
  The scripts handle values that come out of \<^verbatim>\<open>JSON.parse\<close>, property stores and
  object literals. A value is \<^verbatim>\<open>undefined\<close>, \<^verbatim>\<open>null\<close>, a boolean, a number, a string,
  an array or a plain object. An object is the list of its own enumerable properties in
  the order they were added (that an engine enumerates names that look like array indices
  first is left out); numbers are the integers. Members inherited from a prototype are not
  part of a value: where the source calls a method on a data object (\<^verbatim>\<open>hasOwnProperty\<close>),
  the lookup of that method is written out.
\<close>

datatype jsval =
    JUndefined
  | JNull
  | JBool bool
  | JNum int
  | JStr string
  | JArr "jsval list"
  | JObj "(string \<times> jsval) list"

text \<open>Everything the scripts throw or receive as an exception is an \<^verbatim>\<open>Error\<close> instance;
  the constructor names the class, the argument is its \<^verbatim>\<open>message\<close>. \<open>Exception\<close> is what
  a platform service throws. \<open>Unsupported\<close> is no JavaScript exception: it marks the one
  step whose effect a value of \<open>jsval\<close> cannot hold (a property written on an array).\<close>

datatype error =
    Error string
  | TypeError string
  | SyntaxError string
  | Exception string
  | Unsupported string

fun message :: "error \<Rightarrow> string" where
  "message (Error m) = m"
| "message (TypeError m) = m"
| "message (SyntaxError m) = m"
| "message (Exception m) = m"
| "message (Unsupported m) = m"

definition dq :: string where
  "dq = [CHR 0x22]"

fun typeof :: "jsval \<Rightarrow> string" where
  "typeof JUndefined = ''undefined''"
| "typeof JNull = ''object''"
| "typeof (JBool b) = ''boolean''"
| "typeof (JNum n) = ''number''"
| "typeof (JStr s) = ''string''"
| "typeof (JArr xs) = ''object''"
| "typeof (JObj fs) = ''object''"

fun isArray :: "jsval \<Rightarrow> bool" where
  "isArray (JArr xs) = True"
| "isArray v = False"

fun elements :: "jsval \<Rightarrow> jsval list" where
  "elements (JArr xs) = xs"
| "elements v = []"

text \<open>Truthiness, as tested by \<^verbatim>\<open>!x\<close>, \<^verbatim>\<open>x || y\<close> and \<^verbatim>\<open>x && y\<close>.\<close>

fun truthy :: "jsval \<Rightarrow> bool" where
  "truthy JUndefined = False"
| "truthy JNull = False"
| "truthy (JBool b) = b"
| "truthy (JNum n) = (n \<noteq> 0)"
| "truthy (JStr s) = (s \<noteq> [])"
| "truthy (JArr xs) = True"
| "truthy (JObj fs) = True"

subsection \<open>Numbers and values as strings\<close>

definition digit :: "nat \<Rightarrow> char" where
  "digit d = ''0123456789'' ! d"

function show_nat :: "nat \<Rightarrow> string" where
  "show_nat n = (if n < 10 then [digit n] else show_nat (n div 10) @ [digit (n mod 10)])"
  by pat_completeness auto
termination
  by (relation "measure (\<lambda>n. n)") auto

declare show_nat.simps [simp del]

definition show_int :: "int \<Rightarrow> string" where
  "show_int i = (if i < 0 then CHR ''-'' # show_nat (nat (- i)) else show_nat (nat i))"

text \<open>
  \<^verbatim>\<open>ToString\<close> on a value, as string concatenation and property-key conversion apply it.
  An array joins its elements with commas (\<^verbatim>\<open>null\<close> and \<^verbatim>\<open>undefined\<close> elements give the
  empty string). A plain object gives \<^verbatim>\<open>[object Object]\<close> through the inherited
  \<^verbatim>\<open>toString\<close>; an own \<^verbatim>\<open>toString\<close> property of a data object is not callable, and the
  conversion then fails.
\<close>

fun to_string :: "jsval \<Rightarrow> error + string"
  and join_elements :: "jsval list \<Rightarrow> error + string" where
  "to_string JUndefined = Inr ''undefined''"
| "to_string JNull = Inr ''null''"
| "to_string (JBool b) = Inr (if b then ''true'' else ''false'')"
| "to_string (JNum n) = Inr (show_int n)"
| "to_string (JStr s) = Inr s"
| "to_string (JArr xs) = join_elements xs"
| "to_string (JObj fs) =
     (if ''toString'' \<in> set (map fst fs)
      then Inl (TypeError ''Cannot convert object to primitive value'')
      else Inr ''[object Object]'')"
| "join_elements [] = Inr []"
| "join_elements (x # xs) =
     (case (if x = JUndefined \<or> x = JNull then Inr [] else to_string x) of
        Inl e \<Rightarrow> Inl e
      | Inr s \<Rightarrow>
          (if xs = [] then Inr s
           else (case join_elements xs of
                   Inl e \<Rightarrow> Inl e
                 | Inr r \<Rightarrow> Inr (s @ '','' @ r))))"

subsection \<open>Own properties\<close>

text \<open>The own enumerable properties of a value, in the order of \<^verbatim>\<open>Object.keys\<close>: the
  fields of an object, the indices of an array.\<close>

definition index_entries :: "jsval list \<Rightarrow> (string \<times> jsval) list" where
  "index_entries xs = zip (map show_nat [0 ..< length xs]) xs"

fun own_entries :: "jsval \<Rightarrow> (string \<times> jsval) list" where
  "own_entries (JObj fs) = fs"
| "own_entries (JArr xs) = index_entries xs"
| "own_entries (JStr s) = index_entries (map (\<lambda>c. JStr [c]) s)"
| "own_entries v = []"

text \<open>\<^verbatim>\<open>hasOwnProperty\<close> as \<^verbatim>\<open>Object.prototype\<close> implements it: arrays and strings also own
  \<^verbatim>\<open>length\<close>.\<close>

fun has_own :: "jsval \<Rightarrow> string \<Rightarrow> bool" where
  "has_own (JObj fs) k = (k \<in> set (map fst fs))"
| "has_own (JArr xs) k = (k = ''length'' \<or> k \<in> set (map fst (index_entries xs)))"
| "has_own (JStr s) k = (k = ''length'' \<or> k \<in> set (map show_nat [0 ..< length s]))"
| "has_own v k = False"

text \<open>Reading \<^verbatim>\<open>v[k]\<close> or \<^verbatim>\<open>v.k\<close> for an own property of a value that is neither \<^verbatim>\<open>null\<close>
  nor \<^verbatim>\<open>undefined\<close>; a property that is not there reads as \<^verbatim>\<open>undefined\<close>.\<close>

fun get_prop :: "jsval \<Rightarrow> string \<Rightarrow> jsval" where
  "get_prop (JObj fs) k = (case map_of fs k of None \<Rightarrow> JUndefined | Some v \<Rightarrow> v)"
| "get_prop (JArr xs) k =
     (if k = ''length'' then JNum (int (length xs))
      else (case map_of (index_entries xs) k of None \<Rightarrow> JUndefined | Some v \<Rightarrow> v))"
| "get_prop (JStr s) k =
     (if k = ''length'' then JNum (int (length s))
      else (case map_of (index_entries (map (\<lambda>c. JStr [c]) s)) k of
              None \<Rightarrow> JUndefined | Some v \<Rightarrow> v))"
| "get_prop v k = JUndefined"

section \<open>UtilityService.validateResponse\<close>

text \<open>
  \<^verbatim>\<open>response.hasOwnProperty(key)\<close>: the method is looked up on the response first. A
  response that has an own property of that name shadows the inherited method with a
  value that cannot be called; otherwise the key is converted to a property key and
  looked for among the own properties.
\<close>

definition call_hasOwnProperty :: "jsval \<Rightarrow> jsval \<Rightarrow> error + bool" where
  "call_hasOwnProperty response key =
     (if has_own response ''hasOwnProperty''
      then Inl (TypeError ''response.hasOwnProperty is not a function'')
      else (case to_string key of
              Inl e \<Rightarrow> Inl e
            | Inr k \<Rightarrow> Inr (has_own response k)))"

text \<open>The body of \<^verbatim>\<open>requiredKeys.forEach\<close>: the first key that is missing throws.\<close>

fun check_keys :: "jsval \<Rightarrow> jsval list \<Rightarrow> error + bool" where
  "check_keys response [] = Inr True"
| "check_keys response (key # keys) =
     (case call_hasOwnProperty response key of
        Inl e \<Rightarrow> Inl e
      | Inr present \<Rightarrow>
          (if \<not> present
           then (case to_string key of
                   Inl e \<Rightarrow> Inl e
                 | Inr k \<Rightarrow>
                     Inl (Error (''validateResponse: missing required key '' @ dq @ k @ dq)))
           else check_keys response keys))"

definition validateResponse :: "jsval \<Rightarrow> jsval \<Rightarrow> error + bool" where
  "validateResponse response requiredKeys =
     (if typeof response \<noteq> ''object'' \<or> response = JNull
      then Inl (Error ''validateResponse: response must be a non-null object'')
      else if \<not> isArray requiredKeys
      then Inl (Error ''validateResponse: requiredKeys must be an array of strings'')
      else check_keys response (elements requiredKeys))"

section \<open>Triggers\<close>

text \<open>A project trigger: the handler function it runs and its period.\<close>

datatype schedule = EveryHours nat | EveryMinutes nat

record trigger =
  handlerFunction :: string
  period :: schedule

definition bound_to :: "string \<Rightarrow> trigger \<Rightarrow> bool" where
  "bound_to h t = (handlerFunction t = h)"

section \<open>Config.gs\<close>

subsection \<open>Defaults and overrides\<close>

definition DEFAULTS :: jsval where
  "DEFAULTS = JObj
     [(''apiUrl'', JStr ''https://api.example.com/petsync''),
      (''apiKey'', JStr []),
      (''endpoints'', JObj [(''fetchPets'', JStr ''/pets''), (''fetchOwners'', JStr ''/owners'')]),
      (''sheetName'', JStr ''Pets''),
      (''fullRefreshRange'', JStr ''A2:Z''),
      (''incrementalRefreshRange'', JStr ''A2:Z''),
      (''triggerName'', JStr ''PetSync_FetchData'')]"

text \<open>\<^verbatim>\<open>Object.assign(target, source)\<close> on property lists: a property of the source replaces
  the target's of the same name in place, a new one is added at the end.\<close>

definition object_assign :: "(string \<times> 'a) list \<Rightarrow> (string \<times> 'a) list \<Rightarrow> (string \<times> 'a) list" where
  "object_assign target source = fold (\<lambda>(k, v) acc. AList.update k v acc) source target"

text \<open>The body of \<^verbatim>\<open>Object.keys(allProps).forEach\<close> in \<^verbatim>\<open>loadOverrides\<close>: the \<^verbatim>\<open>switch\<close> on the
  key, with \<^verbatim>\<open>JSON.parse\<close> taken from the platform. Property values are strings.\<close>

fun translate_props ::
  "(string \<Rightarrow> error + jsval) \<Rightarrow> (string \<times> string) list \<Rightarrow> (string \<times> jsval) list
     \<Rightarrow> error + (string \<times> jsval) list" where
  "translate_props parse [] overrides = Inr overrides"
| "translate_props parse ((key, val) # props) overrides =
     (if key = ''API_URL''
        then translate_props parse props (AList.update ''apiUrl'' (JStr val) overrides)
      else if key = ''API_KEY''
        then translate_props parse props (AList.update ''apiKey'' (JStr val) overrides)
      else if key = ''ENDPOINTS''
        then (case parse val of
                Inl e \<Rightarrow> Inl (Error ''Invalid JSON for ENDPOINTS in PropertiesService'')
              | Inr v \<Rightarrow> translate_props parse props (AList.update ''endpoints'' v overrides))
      else if key = ''SHEET_NAME''
        then translate_props parse props (AList.update ''sheetName'' (JStr val) overrides)
      else if key = ''FULL_REFRESH_RANGE''
        then translate_props parse props (AList.update ''fullRefreshRange'' (JStr val) overrides)
      else if key = ''INCREMENTAL_REFRESH_RANGE''
        then translate_props parse props
               (AList.update ''incrementalRefreshRange'' (JStr val) overrides)
      else if key = ''TRIGGER_NAME''
        then translate_props parse props (AList.update ''triggerName'' (JStr val) overrides)
      else translate_props parse props overrides)"

text \<open>\<^verbatim>\<open>loadOverrides\<close>: the script properties, overlaid with the user properties. The result
  is the property list of the \<^verbatim>\<open>overrides\<close> object.\<close>

definition loadOverrides ::
  "(string \<Rightarrow> error + jsval) \<Rightarrow> (string \<times> string) list \<Rightarrow> (string \<times> string) list
     \<Rightarrow> error + (string \<times> jsval) list" where
  "loadOverrides parse scriptProps userProps =
     (let allProps = object_assign (object_assign [] scriptProps) userProps
      in translate_props parse allProps [])"

subsection \<open>mergeConfig\<close>

text \<open>
  \<^verbatim>\<open>JSON.parse(JSON.stringify(v))\<close>: a copy in which object properties holding \<^verbatim>\<open>undefined\<close>
  are dropped and \<^verbatim>\<open>undefined\<close> array elements are \<^verbatim>\<open>null\<close>. \<^verbatim>\<open>JSON.stringify(undefined)\<close>
  is \<^verbatim>\<open>undefined\<close>, which \<^verbatim>\<open>JSON.parse\<close> rejects.
\<close>

fun clone_value :: "jsval \<Rightarrow> jsval"
  and clone_items :: "jsval list \<Rightarrow> jsval list"
  and clone_fields :: "(string \<times> jsval) list \<Rightarrow> (string \<times> jsval) list" where
  "clone_value (JArr xs) = JArr (clone_items xs)"
| "clone_value (JObj fs) = JObj (clone_fields fs)"
| "clone_value JUndefined = JUndefined"
| "clone_value JNull = JNull"
| "clone_value (JBool b) = JBool b"
| "clone_value (JNum n) = JNum n"
| "clone_value (JStr s) = JStr s"
| "clone_items [] = []"
| "clone_items (x # xs) = (if x = JUndefined then JNull else clone_value x) # clone_items xs"
| "clone_fields [] = []"
| "clone_fields (f # fs) =
     (if snd f = JUndefined then clone_fields fs
      else (fst f, clone_value (snd f)) # clone_fields fs)"

definition json_clone :: "jsval \<Rightarrow> error + jsval" where
  "json_clone v =
     (if v = JUndefined then Inl (SyntaxError (dq @ ''undefined'' @ dq @ '' is not valid JSON''))
      else Inr (clone_value v))"

text \<open>\<^verbatim>\<open>merged[key]\<close> read and written in strict mode. Reading from \<^verbatim>\<open>null\<close> throws; writing
  to \<^verbatim>\<open>null\<close> or to a primitive throws.\<close>

fun read_prop :: "jsval \<Rightarrow> string \<Rightarrow> error + jsval" where
  "read_prop JNull k = Inl (TypeError (''Cannot read properties of null (reading '' @ k @ '')''))"
| "read_prop JUndefined k =
     Inl (TypeError (''Cannot read properties of undefined (reading '' @ k @ '')''))"
| "read_prop v k = Inr (get_prop v k)"

fun write_prop :: "jsval \<Rightarrow> string \<Rightarrow> jsval \<Rightarrow> error + jsval" where
  "write_prop (JObj fs) k v = Inr (JObj (AList.update k v fs))"
| "write_prop (JArr xs) k v = Inl (Unsupported ''property written on an array'')"
| "write_prop JNull k v = Inl (TypeError (''Cannot set properties of null (setting '' @ k @ '')''))"
| "write_prop JUndefined k v =
     Inl (TypeError (''Cannot set properties of undefined (setting '' @ k @ '')''))"
| "write_prop p k v = Inl (TypeError (''Cannot create property '' @ k @ '' on a primitive''))"

text \<open>
  \<^verbatim>\<open>mergeConfig(defaults, overrides)\<close>, with \<^verbatim>\<open>overrides\<close> given by its property list: the
  caller passes the object built by \<^verbatim>\<open>loadOverrides\<close>, and the recursive call passes an
  override value whose \<^verbatim>\<open>typeof\<close> is \<^verbatim>\<open>object\<close> and that is no array, so an object or
  \<^verbatim>\<open>null\<close> (\<^verbatim>\<open>Object.keys(null)\<close> throws after the copy of the defaults was made).
  \<open>merge_entries\<close> is the \<^verbatim>\<open>forEach\<close> over the keys of \<^verbatim>\<open>overrides\<close>.
\<close>

function mergeConfig :: "jsval \<Rightarrow> (string \<times> jsval) list \<Rightarrow> error + jsval"
  and merge_entries :: "jsval \<Rightarrow> (string \<times> jsval) list \<Rightarrow> error + jsval" where
  "mergeConfig defaults overrides =
     (case json_clone defaults of
        Inl e \<Rightarrow> Inl e
      | Inr merged \<Rightarrow> merge_entries merged overrides)"
| "merge_entries merged [] = Inr merged"
| "merge_entries merged ((key, v) # es) =
     (if v \<noteq> JUndefined then
        (case
           (if typeof v = ''object'' \<and> \<not> isArray v then
              (case read_prop merged key of
                 Inl e \<Rightarrow> Inl e
               | Inr cur \<Rightarrow>
                   (if truthy cur then
                      (case v of
                         JObj sub \<Rightarrow> mergeConfig cur sub
                       | _ \<Rightarrow>
                           (case json_clone cur of
                              Inl e \<Rightarrow> Inl e
                            | Inr c \<Rightarrow>
                                Inl (TypeError ''Cannot convert undefined or null to object'')))
                    else Inr v))
            else Inr v)
         of
           Inl e \<Rightarrow> Inl e
         | Inr new \<Rightarrow>
             (case write_prop merged key new of
                Inl e \<Rightarrow> Inl e
              | Inr merged' \<Rightarrow> merge_entries merged' es))
      else merge_entries merged es)"
  by pat_completeness auto
termination
  by (relation "measure (\<lambda>x. case x of
          Inl (d, ovs) \<Rightarrow> 2 * size_list (size_prod (\<lambda>k. 0) size) ovs + 1
        | Inr (m, es) \<Rightarrow> 2 * size_list (size_prod (\<lambda>k. 0) size) es)") auto

subsection \<open>validate\<close>

definition startsWith :: "string \<Rightarrow> string \<Rightarrow> bool" where
  "startsWith s p = (take (length p) s = p)"

text \<open>The regular expression \<^verbatim>\<open>/^https?:\/\//\<close>.\<close>

definition is_http_url :: "string \<Rightarrow> bool" where
  "is_http_url s = (startsWith s ''http://'' \<or> startsWith s ''https://'')"

text \<open>The body of \<^verbatim>\<open>Object.keys(config.endpoints).forEach\<close>.\<close>

fun check_endpoints :: "(string \<times> jsval) list \<Rightarrow> error + unit" where
  "check_endpoints [] = Inr ()"
| "check_endpoints ((name, path) # es) =
     (if typeof path \<noteq> ''string'' \<or> \<not> truthy path
      then Inl (Error (''Config validation failed: endpoint '' @ dq @ name @ dq @
                       '' must be a non-empty string''))
      else if \<not> (case path of JStr p \<Rightarrow> startsWith p ''/'' | _ \<Rightarrow> False)
      then Inl (Error (''Config validation failed: endpoint '' @ dq @ name @ dq @
                       '' should start with '' @ dq @ ''/'' @ dq))
      else check_endpoints es)"

text \<open>\<^verbatim>\<open>!config.f || typeof config.f !== 'string'\<close>.\<close>

definition not_a_string :: "jsval \<Rightarrow> string \<Rightarrow> bool" where
  "not_a_string config f = (\<not> truthy (get_prop config f) \<or> typeof (get_prop config f) \<noteq> ''string'')"

definition validate :: "jsval \<Rightarrow> error + unit" where
  "validate config =
     (if not_a_string config ''apiUrl''
         \<or> \<not> (case get_prop config ''apiUrl'' of JStr u \<Rightarrow> is_http_url u | _ \<Rightarrow> False)
      then Inl (Error ''Config validation failed: apiUrl must be a valid HTTP(S) URL'')
      else if not_a_string config ''apiKey''
      then Inl (Error ''Config validation failed: apiKey is required and must be a string'')
      else if \<not> truthy (get_prop config ''endpoints'')
              \<or> typeof (get_prop config ''endpoints'') \<noteq> ''object''
      then Inl (Error ''Config validation failed: endpoints must be an object'')
      else (case check_endpoints (own_entries (get_prop config ''endpoints'')) of
              Inl e \<Rightarrow> Inl e
            | Inr u \<Rightarrow>
               (if not_a_string config ''sheetName''
                then Inl (Error
                  ''Config validation failed: sheetName is required and must be a string'')
                else if not_a_string config ''fullRefreshRange''
                then Inl (Error
                  ''Config validation failed: fullRefreshRange is required and must be a string'')
                else if not_a_string config ''incrementalRefreshRange''
                then Inl (Error
                  ''Config validation failed: incrementalRefreshRange is required and must be a string'')
                else if not_a_string config ''triggerName''
                then Inl (Error
                  ''Config validation failed: triggerName is required and must be a string'')
                else Inr ())))"

text \<open>The construction of \<^verbatim>\<open>_config\<close>: load, merge, validate. The value returned is the
  merged object that \<^verbatim>\<open>Object.freeze\<close> is applied to.\<close>

definition build_config ::
  "(string \<Rightarrow> error + jsval) \<Rightarrow> (string \<times> string) list \<Rightarrow> (string \<times> string) list
     \<Rightarrow> error + jsval" where
  "build_config parse scriptProps userProps =
     (case loadOverrides parse scriptProps userProps of
        Inl e \<Rightarrow> Inl e
      | Inr overrides \<Rightarrow>
          (case mergeConfig DEFAULTS overrides of
             Inl e \<Rightarrow> Inl e
           | Inr cfg \<Rightarrow>
               (case validate cfg of
                  Inl e \<Rightarrow> Inl e
                | Inr u \<Rightarrow> Inr cfg)))"

subsection \<open>The frozen configuration and its accessors\<close>

text \<open>
  A configuration that passed \<open>validate\<close> holds non-empty strings in every field but
  \<^verbatim>\<open>endpoints\<close>, which holds an object or an array. The frozen \<^verbatim>\<open>_config\<close> is kept as a record
  of these fields; \<open>freeze\<close> reads them off the merged object.
\<close>

record api_config =
  apiUrl :: string
  apiKey :: string
  endpoints :: jsval

record config = api_config +
  sheetName :: string
  fullRefreshRange :: string
  incrementalRefreshRange :: string
  triggerName :: string

fun string_value :: "jsval \<Rightarrow> string" where
  "string_value (JStr s) = s"
| "string_value v = []"

definition freeze :: "jsval \<Rightarrow> config" where
  "freeze cfg =
     \<lparr>apiUrl = string_value (get_prop cfg ''apiUrl''),
      apiKey = string_value (get_prop cfg ''apiKey''),
      endpoints = get_prop cfg ''endpoints'',
      sheetName = string_value (get_prop cfg ''sheetName''),
      fullRefreshRange = string_value (get_prop cfg ''fullRefreshRange''),
      incrementalRefreshRange = string_value (get_prop cfg ''incrementalRefreshRange''),
      triggerName = string_value (get_prop cfg ''triggerName'')\<rparr>"

text \<open>\<^verbatim>\<open>Config.getApiConfig\<close>: \<^verbatim>\<open>Object.assign({}, _config.endpoints)\<close> copies the own
  enumerable properties of the endpoints into a new plain object.\<close>

definition getApiConfig :: "config \<Rightarrow> api_config" where
  "getApiConfig c =
     \<lparr>apiUrl = apiUrl c,
      apiKey = apiKey c,
      endpoints = JObj (object_assign [] (own_entries (endpoints c)))\<rparr>"

definition getSheetRanges :: "config \<Rightarrow> jsval" where
  "getSheetRanges c = JObj
     [(''sheetName'', JStr (sheetName c)),
      (''fullRefreshRange'', JStr (fullRefreshRange c)),
      (''incrementalRefreshRange'', JStr (incrementalRefreshRange c)),
      (''incrementalRange'', JStr (incrementalRefreshRange c))]"

definition getTriggerName :: "config \<Rightarrow> string" where
  "getTriggerName c = triggerName c"

section \<open>The script's surroundings\<close>

text \<open>
  What a run can observe and change outside its own variables: the lines passed to
  \<^verbatim>\<open>Logger.log\<close>, the toasts shown, the requests handed to \<^verbatim>\<open>UrlFetchApp.fetch\<close>, the
  arguments \<^verbatim>\<open>writeData\<close> was called with, the cells of the spreadsheet's sheets (by sheet
  name, row and column), the sheets that exist with the active one, the project triggers,
  and the number of clock readings taken so far.
\<close>

record state =
  logger :: "string list"
  toasts :: "(string \<times> string) list"
  requests :: "(string \<times> jsval) list"
  writer_calls :: "jsval list"
  cells :: "string \<Rightarrow> nat \<Rightarrow> nat \<Rightarrow> jsval"
  cleared :: "(string \<times> string) list"
  sheet_names :: "string list"
  active_sheet :: string
  triggers :: "trigger list"
  clock_reads :: nat

text \<open>An HTTP response, read through \<^verbatim>\<open>getResponseCode\<close> and \<^verbatim>\<open>getContentText\<close>.\<close>

record http_response =
  responseCode :: int
  contentText :: string

text \<open>A range of a sheet: its top-left cell and its extent.\<close>

record range =
  row :: nat
  col :: nat
  numRows :: nat
  numColumns :: nat

text \<open>
  The platform, as far as the scripts call it: \<^verbatim>\<open>UrlFetchApp.fetch\<close> (the answer to the
  \<open>k\<close>-th request of the run, an exception when the transport fails), \<^verbatim>\<open>JSON.parse\<close> and
  \<^verbatim>\<open>JSON.stringify\<close>, the clock (\<open>k\<close>-th reading), whether showing a toast fails, and the
  resolution of a range written in A1 notation.
\<close>

record env =
  url_fetch :: "nat \<Rightarrow> string \<Rightarrow> jsval \<Rightarrow> error + http_response"
  json_parse :: "string \<Rightarrow> error + jsval"
  json_stringify :: "jsval \<Rightarrow> string"
  clock :: "nat \<Rightarrow> int"
  toast_failure :: "error option"
  a1_range :: "string \<Rightarrow> error + range"

section \<open>UtilityService.gs: logging and callApi\<close>

text \<open>\<^verbatim>\<open>SpreadsheetApp.getActiveSpreadsheet().toast(...)\<close> inside \<^verbatim>\<open>try\<close>: a failure is
  logged under the given prefix and goes no further.\<close>

definition show_toast :: "env \<Rightarrow> string \<Rightarrow> string \<Rightarrow> string \<Rightarrow> state \<Rightarrow> state" where
  "show_toast env msg title prefix st =
     (case toast_failure env of
        None \<Rightarrow> st\<lparr>toasts := toasts st @ [(msg, title)]\<rparr>
      | Some e \<Rightarrow> st\<lparr>logger := logger st @ [prefix @ message e]\<rparr>)"

definition logSuccess :: "jsval \<Rightarrow> env \<Rightarrow> state \<Rightarrow> (error + unit) \<times> state" where
  "logSuccess msg env st =
     (case msg of
        JStr m \<Rightarrow>
          (Inr (),
           show_toast env m ''PetSync Success'' ''PetSync toast failed: ''
             (st\<lparr>logger := logger st @ [''SUCCESS: '' @ m]\<rparr>))
      | _ \<Rightarrow> (Inl (Error ''logSuccess: message must be a string''), st))"

text \<open>\<^verbatim>\<open>logError\<close> on an \<^verbatim>\<open>Error\<close> instance (the branch \<^verbatim>\<open>error instanceof Error\<close>): the
  message is logged and shown.\<close>

definition logError :: "error \<Rightarrow> env \<Rightarrow> state \<Rightarrow> state" where
  "logError err env st =
     (let msg = message err
      in show_toast env msg ''PetSync Error'' ''PetSync error toast failed: ''
           (st\<lparr>logger := logger st @ [''ERROR: '' @ msg]\<rparr>))"

text \<open>\<^verbatim>\<open>String.prototype.toUpperCase\<close> on the letters a to z.\<close>

definition upper_char :: "char \<Rightarrow> char" where
  "upper_char c =
     (if c \<in> set ''abcdefghijklmnopqrstuvwxyz''
      then ''ABCDEFGHIJKLMNOPQRSTUVWXYZ'' ! (of_char c - 97) else c)"

definition toUpperCase :: "string \<Rightarrow> string" where
  "toUpperCase s = map upper_char s"

text \<open>A reading of \<^verbatim>\<open>new Date().getTime()\<close>.\<close>

definition read_clock :: "env \<Rightarrow> state \<Rightarrow> int \<times> state" where
  "read_clock env st = (clock env (clock_reads st), st\<lparr>clock_reads := Suc (clock_reads st)\<rparr>)"

text \<open>The options object \<^verbatim>\<open>callApi\<close> hands to \<^verbatim>\<open>UrlFetchApp.fetch\<close>.\<close>

definition fetchOptions :: "env \<Rightarrow> jsval \<Rightarrow> jsval" where
  "fetchOptions env options = JObj
     [(''method'',
         JStr (if truthy (get_prop options ''method'')
                  \<and> typeof (get_prop options ''method'') = ''string''
               then toUpperCase (string_value (get_prop options ''method''))
               else ''GET'')),
      (''muteHttpExceptions'', JBool True),
      (''contentType'', JStr ''application/json''),
      (''headers'',
         (if truthy (get_prop options ''headers'') then get_prop options ''headers''
          else JObj [])),
      (''payload'',
         (if truthy (get_prop options ''payload'')
             \<and> typeof (get_prop options ''payload'') = ''string''
          then get_prop options ''payload''
          else if truthy (get_prop options ''payload'')
          then JStr (json_stringify env (get_prop options ''payload''))
          else JNull)),
      (''validateHttpsCertificates'', JBool True),
      (''followRedirects'', JBool True),
      (''timeout'',
         (if typeof (get_prop options ''timeout'') = ''number'' then get_prop options ''timeout''
          else JNum 30000))]"

definition callApi :: "jsval \<Rightarrow> jsval \<Rightarrow> env \<Rightarrow> state \<Rightarrow> (error + jsval) \<times> state" where
  "callApi url options0 env st =
     (if typeof url \<noteq> ''string'' \<or> url = JStr []
      then (Inl (Error ''callApi: url must be a non-empty string''), st)
      else
        (let u = string_value url;
             options = (if truthy options0 then options0 else JObj []);
             opts = fetchOptions env options;
             method = string_value (get_prop opts ''method'');
             (startTime, st1) = read_clock env st;
             st2 = st1\<lparr>requests := requests st1 @ [(u, opts)]\<rparr>
         in (case url_fetch env (length (requests st1)) u opts of
               Inl e \<Rightarrow>
                 (Inl (Error (''callApi: request failed for '' @ u @ '' - '' @ message e)),
                  logError e env st2)
             | Inr response \<Rightarrow>
                 (let (endTime, st3) = read_clock env st2;
                      duration = endTime - startTime;
                      st4 = st3\<lparr>logger := logger st3 @
                              [''callApi: '' @ method @ '' '' @ u @ '' took '' @
                               show_int duration @ ''ms'']\<rparr>;
                      code = responseCode response;
                      body = contentText response
                  in if code < 200 \<or> code \<ge> 300
                     then (Inl (Error (''callApi: HTTP '' @ show_int code @ '' - '' @ body)), st4)
                     else (case json_parse env body of
                             Inl e \<Rightarrow>
                               (Inl (Error (''callApi: JSON parse error - '' @ message e)), st4)
                           | Inr v \<Rightarrow> (Inr v, st4))))))"

section \<open>Code.gs: setupTriggers\<close>

text \<open>\<^verbatim>\<open>some\<close> over the project triggers, then at most one
  \<^verbatim>\<open>newTrigger('fetchData').timeBased().everyHours(1).create()\<close>.\<close>

definition setupTriggers :: "state \<Rightarrow> state" where
  "setupTriggers st =
     (let existing = list_ex (bound_to ''fetchData'') (triggers st)
      in if \<not> existing
         then st\<lparr>triggers :=
                  triggers st @ [\<lparr>handlerFunction = ''fetchData'', period = EveryHours 1\<rparr>]\<rparr>
         else st)"

section \<open>Code.gs: writeData\<close>

record write_result =
  success :: bool
  rows :: nat

text \<open>
  The sheet written to: \<^verbatim>\<open>getSheetByName\<close> gives \<^verbatim>\<open>null\<close> for a name no sheet has, and the
  active sheet stands in. \<^verbatim>\<open>getRange\<close> on A1 notation is the platform's; it takes a string.
\<close>

definition target_sheet :: "jsval \<Rightarrow> state \<Rightarrow> string" where
  "target_sheet name st =
     (if truthy name
      then (case name of
              JStr n \<Rightarrow> if n \<in> set (sheet_names st) then n else active_sheet st
            | _ \<Rightarrow> active_sheet st)
      else active_sheet st)"

definition getRange_a1 :: "env \<Rightarrow> jsval \<Rightarrow> error + range" where
  "getRange_a1 env a =
     (case a of
        JStr s \<Rightarrow> a1_range env s
      | _ \<Rightarrow> Inl (Exception ''The parameters do not match the method signature for getRange''))"

definition in_range :: "range \<Rightarrow> nat \<Rightarrow> nat \<Rightarrow> bool" where
  "in_range rg r c =
     (row rg \<le> r \<and> r < row rg + numRows rg \<and> col rg \<le> c \<and> c < col rg + numColumns rg)"

text \<open>\<^verbatim>\<open>clearContent\<close> empties the cells of a range; the call is also recorded.\<close>

definition clearContent :: "string \<Rightarrow> string \<Rightarrow> range \<Rightarrow> state \<Rightarrow> state" where
  "clearContent sheet a rg st =
     st\<lparr>cells := (\<lambda>s r c. if s = sheet \<and> in_range rg r c then JStr [] else cells st s r c),
        cleared := cleared st @ [(sheet, a)]\<rparr>"

text \<open>\<^verbatim>\<open>setValues\<close>, as the platform documents it: it throws unless every row of the data
  is an array as wide as the range; otherwise the block is written in one step.\<close>

definition setValues :: "string \<Rightarrow> range \<Rightarrow> jsval list \<Rightarrow> state \<Rightarrow> error + state" where
  "setValues sheet rg data st =
     (if list_all (\<lambda>r. isArray r \<and> length (elements r) = numColumns rg) data
         \<and> length data = numRows rg
      then Inr (st\<lparr>cells := (\<lambda>s r c.
                   if s = sheet \<and> in_range rg r c
                   then elements (data ! (r - row rg)) ! (c - col rg)
                   else cells st s r c)\<rparr>)
      else Inl (Exception ''The data does not match the dimensions of the range''))"

definition writeData_with :: "jsval \<Rightarrow> env \<Rightarrow> jsval \<Rightarrow> state \<Rightarrow> (error + write_result) \<times> state" where
  "writeData_with ranges env data st =
     (let st0 = st\<lparr>writer_calls := writer_calls st @ [data]\<rparr>
      in if \<not> isArray data then (Inl (Error ''writeData received invalid data format''), st0)
         else (case elements data of
            [] \<Rightarrow> (Inl (Error ''writeData received invalid data format''), st0)
          | first # others \<Rightarrow>
              if \<not> isArray first
              then (Inl (Error ''writeData received invalid data format''), st0)
              else
                (let sheet = target_sheet (get_prop ranges ''sheetName'') st0;
                     nrows = length (elements data);
                     ncols = length (elements first)
                 in (case
                       (if truthy (get_prop ranges ''fullRefresh'')
                        then (case getRange_a1 env (get_prop ranges ''fullRefreshRange'') of
                                Inl e \<Rightarrow> Inl e
                              | Inr rg \<Rightarrow>
                                  Inr (rg, clearContent sheet
                                             (string_value (get_prop ranges ''fullRefreshRange''))
                                             rg st0))
                        else (case getRange_a1 env (get_prop ranges ''incrementalRange'') of
                                Inl e \<Rightarrow> Inl e
                              | Inr rg \<Rightarrow> Inr (rg, st0)))
                     of
                       Inl e \<Rightarrow> (Inl e, st0)
                     | Inr (startCell, st1) \<Rightarrow>
                         if ncols < 1
                         then (Inl (Exception
                                 ''The number of columns in the range must be at least 1''), st1)
                         else
                           (case setValues sheet
                                   \<lparr>row = row startCell, col = col startCell,
                                    numRows = nrows, numColumns = ncols\<rparr>
                                   (elements data) st1 of
                              Inl e \<Rightarrow> (Inl e, st1)
                            | Inr st2 \<Rightarrow> (Inr \<lparr>success = True, rows = nrows\<rparr>, st2))))))"

text \<open>\<^verbatim>\<open>writeData\<close> takes its ranges from \<^verbatim>\<open>getSheetRanges()\<close>.\<close>

definition writeData :: "config \<Rightarrow> env \<Rightarrow> jsval \<Rightarrow> state \<Rightarrow> (error + write_result) \<times> state" where
  "writeData c env data st = writeData_with (getSheetRanges c) env data st"

section \<open>Code.gs: fetchData\<close>

text \<open>
  Code.gs calls \<^verbatim>\<open>getApiConfig\<close>, \<^verbatim>\<open>getSheetRanges\<close>, \<^verbatim>\<open>validateResponse\<close>, \<^verbatim>\<open>logError\<close> and
  \<^verbatim>\<open>logSuccess\<close> by their bare names; they are the members of \<^verbatim>\<open>Config\<close> and
  \<^verbatim>\<open>UtilityService\<close> of these names. \<open>fetchData_with\<close> is the body of \<^verbatim>\<open>fetchData\<close> for a given
  result of \<^verbatim>\<open>getApiConfig()\<close>; \<open>fetchData\<close> takes that result from the configuration.
\<close>

definition endpoint_options :: "'a api_config_scheme \<Rightarrow> jsval" where
  "endpoint_options config = JObj
     [(''method'', JStr ''get''),
      (''headers'', JObj [(''Authorization'', JStr (''Bearer '' @ apiKey config))]),
      (''muteHttpExceptions'', JBool True)]"

text \<open>The body of \<^verbatim>\<open>config.endpoints.forEach\<close> for one endpoint; it returns the elements
  pushed onto \<^verbatim>\<open>allData\<close>. \<^verbatim>\<open>validateResponse\<close> is called with one argument.\<close>

definition fetch_endpoint ::
  "env \<Rightarrow> 'a api_config_scheme \<Rightarrow> jsval \<Rightarrow> state \<Rightarrow> (error + jsval list) \<times> state" where
  "fetch_endpoint env config endpoint st =
     (case to_string endpoint of
        Inl e \<Rightarrow> (Inl e, st)
      | Inr path \<Rightarrow>
          (let url = apiUrl config @ path;
               options = endpoint_options config;
               st1 = st\<lparr>requests := requests st @ [(url, options)]\<rparr>
           in (case url_fetch env (length (requests st)) url options of
                 Inl e \<Rightarrow> (Inl e, st1)
               | Inr response \<Rightarrow>
                   (case json_parse env (contentText response) of
                      Inl e \<Rightarrow> (Inl e, st1)
                    | Inr json \<Rightarrow>
                        (case validateResponse json JUndefined of
                           Inl e \<Rightarrow> (Inl e, st1)
                         | Inr ok \<Rightarrow>
                             (if isArray (get_prop json ''data'')
                              then (Inr (elements (get_prop json ''data'')), st1)
                              else (Inr [], st1)))))))"

fun fetch_endpoints ::
  "env \<Rightarrow> 'a api_config_scheme \<Rightarrow> jsval list \<Rightarrow> jsval list \<Rightarrow> state
     \<Rightarrow> (error + jsval list) \<times> state" where
  "fetch_endpoints env config [] allData st = (Inr allData, st)"
| "fetch_endpoints env config (endpoint # others) allData st =
     (case fetch_endpoint env config endpoint st of
        (Inl e, st1) \<Rightarrow> (Inl e, st1)
      | (Inr pushed, st1) \<Rightarrow> fetch_endpoints env config others (allData @ pushed) st1)"

text \<open>The \<^verbatim>\<open>try\<close> block.\<close>

definition fetchData_try ::
  "'a api_config_scheme \<Rightarrow> config \<Rightarrow> env \<Rightarrow> state \<Rightarrow> (error + write_result) \<times> state" where
  "fetchData_try config c env st =
     (if apiUrl config = [] \<or> \<not> isArray (endpoints config)
      then (Inl (Error ''Invalid API configuration''), st)
      else
        (case fetch_endpoints env config (elements (endpoints config)) [] st of
           (Inl e, st1) \<Rightarrow> (Inl e, st1)
         | (Inr allData, st1) \<Rightarrow>
             (case writeData c env (JArr allData) st1 of
                (Inl e, st2) \<Rightarrow> (Inl e, st2)
              | (Inr result, st2) \<Rightarrow>
                  (let st3 = setupTriggers st2
                   in (case logSuccess
                             (JStr (''Data fetch complete: '' @ show_nat (rows result) @
                                    '' rows written.'')) env st3 of
                         (Inl e, st4) \<Rightarrow> (Inl e, st4)
                       | (Inr u, st4) \<Rightarrow> (Inr result, st4))))))"

text \<open>The \<^verbatim>\<open>catch\<close>: log and throw again.\<close>

definition fetchData_with ::
  "'a api_config_scheme \<Rightarrow> config \<Rightarrow> env \<Rightarrow> state \<Rightarrow> (error + write_result) \<times> state" where
  "fetchData_with config c env st =
     (case fetchData_try config c env st of
        (Inl e, st1) \<Rightarrow> (Inl e, logError e env st1)
      | (Inr result, st1) \<Rightarrow> (Inr result, st1))"

definition fetchData :: "config \<Rightarrow> env \<Rightarrow> state \<Rightarrow> (error + write_result) \<times> state" where
  "fetchData c env st = fetchData_with (getApiConfig c) c env st"

section \<open>Example inputs\<close>

text \<open>The configuration built from the defaults when the only property set is
  \<^verbatim>\<open>API_KEY = k\<close>.\<close>

definition keyed_config :: jsval where
  "keyed_config = JObj
     [(''apiUrl'', JStr ''https://api.example.com/petsync''),
      (''apiKey'', JStr ''k''),
      (''endpoints'', JObj [(''fetchPets'', JStr ''/pets''), (''fetchOwners'', JStr ''/owners'')]),
      (''sheetName'', JStr ''Pets''),
      (''fullRefreshRange'', JStr ''A2:Z''),
      (''incrementalRefreshRange'', JStr ''A2:Z''),
      (''triggerName'', JStr ''PetSync_FetchData'')]"

text \<open>A platform whose first request is answered with \<^verbatim>\<open>{data:[r1,r2]}\<close> and every later
  one with \<^verbatim>\<open>{data:[r3]}\<close>, status 200; \<^verbatim>\<open>A2:Z\<close> resolves to a range starting at row 2,
  column 1.\<close>

definition two_answers :: "jsval \<Rightarrow> jsval \<Rightarrow> jsval \<Rightarrow> env" where
  "two_answers r1 r2 r3 =
     \<lparr>url_fetch = (\<lambda>k url options.
         Inr \<lparr>responseCode = 200, contentText = (if k = 0 then ''first'' else ''second'')\<rparr>),
      json_parse = (\<lambda>s. if s = ''first'' then Inr (JObj [(''data'', JArr [r1, r2])])
                        else Inr (JObj [(''data'', JArr [r3])])),
      json_stringify = (\<lambda>v. []),
      clock = (\<lambda>k. int k),
      toast_failure = None,
      a1_range = (\<lambda>a. Inr \<lparr>row = 2, col = 1, numRows = 1000, numColumns = 26\<rparr>)\<rparr>"

text \<open>A spreadsheet with one empty sheet, no trigger, and nothing logged yet.\<close>

definition blank_state :: state where
  "blank_state =
     \<lparr>logger = [], toasts = [], requests = [], writer_calls = [],
      cells = (\<lambda>s r c. JStr []), cleared = [], sheet_names = [''Pets''],
      active_sheet = ''Pets'', triggers = [], clock_reads = 0\<rparr>"

text \<open>The number of triggers bound to a handler.\<close>

definition count_bound :: "string \<Rightarrow> state \<Rightarrow> nat" where
  "count_bound h st = length (filter (bound_to h) (triggers st))"



text \<open>A platform that answers every request with the given status and body; only
  \<^verbatim>\<open>{}\<close> parses as JSON.\<close>

definition answering :: "int \<Rightarrow> string \<Rightarrow> env" where
  "answering status text =
     \<lparr>url_fetch = (\<lambda>k url options. Inr \<lparr>responseCode = status, contentText = text\<rparr>),
      json_parse = (\<lambda>s. if s = ''{}'' then Inr (JObj [])
                        else Inl (SyntaxError ''Unexpected token'')),
      json_stringify = (\<lambda>v. []),
      clock = (\<lambda>k. 1000 + 7 * int k),
      toast_failure = None,
      a1_range = (\<lambda>a. Inr \<lparr>row = 2, col = 1, numRows = 1000, numColumns = 26\<rparr>)\<rparr>"



section \<open>Plain data\<close>



text \<open>
  The names every object inherits from \<^verbatim>\<open>Object.prototype\<close>. Reading such a name from an
  object that has no own property of that name gives the inherited member, which a value
  of \<open>jsval\<close> does not hold; \<open>own_named\<close> says that no property at any depth has such a name.
\<close>

definition inherited_names :: "string list" where
  "inherited_names =
     [''constructor'', ''__proto__'', ''hasOwnProperty'', ''isPrototypeOf'',
      ''propertyIsEnumerable'', ''toLocaleString'', ''toString'', ''valueOf'',
      ''__defineGetter__'', ''__defineSetter__'', ''__lookupGetter__'', ''__lookupSetter__'']"

fun own_named :: "jsval \<Rightarrow> bool"
  and own_named_items :: "jsval list \<Rightarrow> bool"
  and own_named_fields :: "(string \<times> jsval) list \<Rightarrow> bool" where
  "own_named (JArr xs) = own_named_items xs"
| "own_named (JObj fs) = own_named_fields fs"
| "own_named JUndefined = True"
| "own_named JNull = True"
| "own_named (JBool b) = True"
| "own_named (JNum n) = True"
| "own_named (JStr s) = True"
| "own_named_items [] = True"
| "own_named_items (x # xs) = (own_named x \<and> own_named_items xs)"
| "own_named_fields [] = True"
| "own_named_fields (f # fs) =
     (fst f \<notin> set inherited_names \<and> own_named (snd f) \<and> own_named_fields fs)"






section \<open>The configuration as an object in the store\<close>

text \<open>
  Whether a caller can change \<^verbatim>\<open>_config\<close> depends on which objects are shared and which
  are frozen, so here objects live in a store. A stored object has its own properties,
  each holding a primitive or a reference to another object, and the flag that
  \<^verbatim>\<open>Object.freeze\<close> sets. The store is the list of the objects allocated so far; an address
  is a position in it.
\<close>

datatype hval = Prim jsval | Ref nat

record hobject =
  props :: "(string \<times> hval) list"
  frozen :: bool
  is_array :: bool

type_synonym heap = "hobject list"

text \<open>Allocating a value: a primitive is itself, an object or array becomes a new object
  that is not frozen, after its parts.\<close>

fun alloc_value :: "jsval \<Rightarrow> heap \<Rightarrow> hval \<times> heap"
  and alloc_fields :: "(string \<times> jsval) list \<Rightarrow> heap \<Rightarrow> (string \<times> hval) list \<times> heap"
  and alloc_items :: "nat \<Rightarrow> jsval list \<Rightarrow> heap \<Rightarrow> (string \<times> hval) list \<times> heap" where
  "alloc_value (JObj fs) h =
     (case alloc_fields fs h of
        (ps, h1) \<Rightarrow> (Ref (length h1), h1 @ [\<lparr>props = ps, frozen = False, is_array = False\<rparr>]))"
| "alloc_value (JArr xs) h =
     (case alloc_items 0 xs h of
        (ps, h1) \<Rightarrow> (Ref (length h1), h1 @ [\<lparr>props = ps, frozen = False, is_array = True\<rparr>]))"
| "alloc_value JUndefined h = (Prim JUndefined, h)"
| "alloc_value JNull h = (Prim JNull, h)"
| "alloc_value (JBool b) h = (Prim (JBool b), h)"
| "alloc_value (JNum n) h = (Prim (JNum n), h)"
| "alloc_value (JStr s) h = (Prim (JStr s), h)"
| "alloc_fields [] h = ([], h)"
| "alloc_fields (f # fs) h =
     (case alloc_value (snd f) h of
        (x, h1) \<Rightarrow> (case alloc_fields fs h1 of (ps, h2) \<Rightarrow> ((fst f, x) # ps, h2)))"
| "alloc_items i [] h = ([], h)"
| "alloc_items i (x # xs) h =
     (case alloc_value x h of
        (y, h1) \<Rightarrow> (case alloc_items (Suc i) xs h1 of (ps, h2) \<Rightarrow> ((show_nat i, y) # ps, h2)))"

text \<open>
  The construction of \<^verbatim>\<open>_config\<close> in the store: the endpoints with their parts, then the
  configuration object, which \<^verbatim>\<open>Object.freeze(cfg)\<close> freezes. The freeze is shallow: the
  endpoints object stays as it was allocated. The result is the store and the address of
  \<^verbatim>\<open>_config\<close>.
\<close>

definition install_config :: "config \<Rightarrow> heap \<times> nat" where
  "install_config c =
     (case alloc_value (endpoints c) [] of
        (e, h1) \<Rightarrow>
          (h1 @ [\<lparr>props =
                    [(''apiUrl'', Prim (JStr (apiUrl c))),
                     (''apiKey'', Prim (JStr (apiKey c))),
                     (''endpoints'', e),
                     (''sheetName'', Prim (JStr (sheetName c))),
                     (''fullRefreshRange'', Prim (JStr (fullRefreshRange c))),
                     (''incrementalRefreshRange'', Prim (JStr (incrementalRefreshRange c))),
                     (''triggerName'', Prim (JStr (triggerName c)))],
                  frozen = True, is_array = False\<rparr>],
           length h1))"

text \<open>Reading a property of a stored object; what is not there reads as \<^verbatim>\<open>undefined\<close>.\<close>

definition field :: "heap \<Rightarrow> nat \<Rightarrow> string \<Rightarrow> hval" where
  "field h a k =
     (if a < length h
      then (case map_of (props (h ! a)) k of None \<Rightarrow> Prim JUndefined | Some x \<Rightarrow> x)
      else Prim JUndefined)"

text \<open>The own enumerable properties \<^verbatim>\<open>Object.assign\<close> copies from a source.\<close>

definition enumerable :: "heap \<Rightarrow> hval \<Rightarrow> (string \<times> hval) list" where
  "enumerable h x =
     (case x of
        Ref a \<Rightarrow> (if a < length h then props (h ! a) else [])
      | Prim v \<Rightarrow> map (\<lambda>e. (fst e, Prim (snd e))) (own_entries v))"

text \<open>The accessors of \<^verbatim>\<open>Config\<close>, for \<^verbatim>\<open>_config\<close> at address \<open>r\<close>: each object literal and each
  \<^verbatim>\<open>Object.assign({}, ...)\<close> allocates, each \<^verbatim>\<open>Object.freeze\<close> sets the flag.\<close>

definition heap_getApiConfig :: "nat \<Rightarrow> heap \<Rightarrow> hval \<times> heap" where
  "heap_getApiConfig r h =
     (let copy = \<lparr>props = object_assign [] (enumerable h (field h r ''endpoints'')),
                  frozen = True, is_array = False\<rparr>;
          h1 = h @ [copy];
          view = \<lparr>props =
                    [(''apiUrl'', field h r ''apiUrl''),
                     (''apiKey'', field h r ''apiKey''),
                     (''endpoints'', Ref (length h))],
                  frozen = True, is_array = False\<rparr>
      in (Ref (length h1), h1 @ [view]))"

definition heap_getSheetRanges :: "nat \<Rightarrow> heap \<Rightarrow> hval \<times> heap" where
  "heap_getSheetRanges r h =
     (Ref (length h),
      h @ [\<lparr>props =
               [(''sheetName'', field h r ''sheetName''),
                (''fullRefreshRange'', field h r ''fullRefreshRange''),
                (''incrementalRefreshRange'', field h r ''incrementalRefreshRange''),
                (''incrementalRange'', field h r ''incrementalRefreshRange'')],
             frozen = True, is_array = False\<rparr>])"

definition heap_getTriggerName :: "nat \<Rightarrow> heap \<Rightarrow> hval \<times> heap" where
  "heap_getTriggerName r h = (field h r ''triggerName'', h)"

definition heap_getRawConfig :: "nat \<Rightarrow> heap \<Rightarrow> hval \<times> heap" where
  "heap_getRawConfig r h = (Ref r, h)"

text \<open>
  What a caller can do with a value it was handed: follow properties from it, and try to
  set or delete a property of the object it arrives at. On a frozen object both leave the
  object as it is (in strict code they throw); a primitive has nothing to change.
\<close>

fun navigate :: "heap \<Rightarrow> hval \<Rightarrow> string list \<Rightarrow> hval" where
  "navigate h x [] = x"
| "navigate h (Ref a) (p # ps) = navigate h (field h a p) ps"
| "navigate h (Prim v) (p # ps) = Prim JUndefined"

definition set_property :: "heap \<Rightarrow> hval \<Rightarrow> string \<Rightarrow> hval \<Rightarrow> heap" where
  "set_property h target k v =
     (case target of
        Ref a \<Rightarrow>
          (if a < length h \<and> \<not> frozen (h ! a)
           then h[a := (h ! a)\<lparr>props := AList.update k v (props (h ! a))\<rparr>]
           else h)
      | Prim p \<Rightarrow> h)"








text \<open>A stored value read back as plain data, references followed through two objects,
  which is as deep as a configuration with string endpoints goes.\<close>

definition read_back :: "heap \<Rightarrow> hval \<Rightarrow> jsval" where
  "read_back h x =
     (case x of
        Prim v \<Rightarrow> v
      | Ref a \<Rightarrow>
          JObj (map (\<lambda>e. (fst e, case snd e of
                                    Prim v \<Rightarrow> v
                                  | Ref b \<Rightarrow>
                                      JObj (map (\<lambda>d. (fst d, case snd d of Prim v \<Rightarrow> v
                                                                 | Ref c \<Rightarrow> JUndefined))
                                              (props (h ! b)))))
                 (props (h ! a))))"


text \<open>The store right after the construction of \<open>keyed_config\<close>.\<close>

definition keyed_store :: heap where
  "keyed_store =
     [\<lparr>props = [(''fetchPets'', Prim (JStr ''/pets'')), (''fetchOwners'', Prim (JStr ''/owners''))],
       frozen = False, is_array = False\<rparr>,
      \<lparr>props =
         [(''apiUrl'', Prim (JStr ''https://api.example.com/petsync'')),
          (''apiKey'', Prim (JStr ''k'')),
          (''endpoints'', Ref 0),
          (''sheetName'', Prim (JStr ''Pets'')),
          (''fullRefreshRange'', Prim (JStr ''A2:Z'')),
          (''incrementalRefreshRange'', Prim (JStr ''A2:Z'')),
          (''triggerName'', Prim (JStr ''PetSync_FetchData''))],
       frozen = True, is_array = False\<rparr>]"

section \<open>Properties\<close>

subsection \<open>Triggers\<close>

lemma list_ex_filter: "list_ex P xs \<longleftrightarrow> filter P xs \<noteq> []"
  by (induction xs) auto

text \<open>
  C7. \<^verbatim>\<open>setupTriggers\<close> is idempotent. From any state: when a trigger bound to
  \<^verbatim>\<open>fetchData\<close> exists the state is left as it is, otherwise exactly one hourly trigger is
  appended; a second call in succession changes nothing, so from a state with at most one
  such trigger two calls leave exactly one.
\<close>

theorem setupTriggers_idempotent:
  "setupTriggers (setupTriggers st) = setupTriggers st
   \<and> (list_ex (bound_to ''fetchData'') (triggers st) \<longrightarrow> setupTriggers st = st)
   \<and> (\<not> list_ex (bound_to ''fetchData'') (triggers st) \<longrightarrow>
        setupTriggers st =
          st\<lparr>triggers := triggers st @
                [\<lparr>handlerFunction = ''fetchData'', period = EveryHours 1\<rparr>]\<rparr>)
   \<and> (count_bound ''fetchData'' st \<le> 1 \<longrightarrow>
        count_bound ''fetchData'' (setupTriggers (setupTriggers st)) = 1)"
proof -
  have idem: "setupTriggers (setupTriggers st) = setupTriggers st"
    by (auto simp: setupTriggers_def Let_def bound_to_def)
  have keep: "list_ex (bound_to ''fetchData'') (triggers st) \<longrightarrow> setupTriggers st = st"
    by (simp add: setupTriggers_def)
  have add: "\<not> list_ex (bound_to ''fetchData'') (triggers st) \<longrightarrow>
        setupTriggers st =
          st\<lparr>triggers := triggers st @
                [\<lparr>handlerFunction = ''fetchData'', period = EveryHours 1\<rparr>]\<rparr>"
    by (simp add: setupTriggers_def)
  have one: "count_bound ''fetchData'' st \<le> 1 \<longrightarrow>
        count_bound ''fetchData'' (setupTriggers st) = 1"
  proof (cases "list_ex (bound_to ''fetchData'') (triggers st)")
    case True
    then have "filter (bound_to ''fetchData'') (triggers st) \<noteq> []"
      by (simp add: list_ex_filter)
    then have "1 \<le> count_bound ''fetchData'' st"
      by (cases "filter (bound_to ''fetchData'') (triggers st)") (simp_all add: count_bound_def)
    with True show ?thesis by (simp add: setupTriggers_def)
  next
    case False
    then have "filter (bound_to ''fetchData'') (triggers st) = []"
      by (simp add: list_ex_filter)
    with False show ?thesis by (simp add: setupTriggers_def count_bound_def bound_to_def)
  qed
  from idem keep add one show ?thesis by simp
qed

theorem setupTriggers_idempotent_witness:
  "count_bound ''fetchData'' blank_state = 0
   \<and> triggers (setupTriggers blank_state) =
       [\<lparr>handlerFunction = ''fetchData'', period = EveryHours 1\<rparr>]
   \<and> count_bound ''fetchData'' (setupTriggers (setupTriggers blank_state)) = 1
   \<and> setupTriggers (setupTriggers (setupTriggers blank_state)) = setupTriggers blank_state"
proof -
  have none: "count_bound ''fetchData'' blank_state = 0"
    by (simp add: count_bound_def blank_state_def)
  have nex: "\<not> list_ex (bound_to ''fetchData'') (triggers blank_state)"
    by (simp add: blank_state_def)
  have empty: "triggers blank_state = []"
    by (simp add: blank_state_def)
  note first = setupTriggers_idempotent [of blank_state]
  from first nex have "setupTriggers blank_state =
      blank_state\<lparr>triggers := triggers blank_state @
        [\<lparr>handlerFunction = ''fetchData'', period = EveryHours 1\<rparr>]\<rparr>"
    by blast
  then have t: "triggers (setupTriggers blank_state) =
      [\<lparr>handlerFunction = ''fetchData'', period = EveryHours 1\<rparr>]"
    by (simp add: empty)
  have "count_bound ''fetchData'' blank_state \<le> 1"
    by (simp add: none)
  with first have c: "count_bound ''fetchData'' (setupTriggers (setupTriggers blank_state)) = 1"
    by blast
  from first have "setupTriggers (setupTriggers blank_state) = setupTriggers blank_state"
    by blast
  then have i: "setupTriggers (setupTriggers (setupTriggers blank_state)) =
      setupTriggers blank_state"
    by simp
  from none t c i show ?thesis by simp
qed

subsection \<open>validateResponse\<close>

lemma validateResponse_examples:
  "validateResponse (JObj [(''a'', JNum 1)]) (JArr [JStr ''a'', JStr ''b'']) =
     Inl (Error (''validateResponse: missing required key '' @ dq @ ''b'' @ dq))"
  "validateResponse (JObj [(''a'', JNum 1), (''b'', JNum 2)]) (JArr [JStr ''a'', JStr ''b'']) =
     Inr True"
  by (simp_all add: validateResponse_def call_hasOwnProperty_def)

lemma check_keys_strings:
  "\<not> has_own response ''hasOwnProperty'' \<Longrightarrow>
   (case check_keys response (map JStr ks) of
      Inr b \<Rightarrow> b \<and> list_all (has_own response) ks
    | Inl e \<Rightarrow> \<exists>k \<in> set ks. \<not> has_own response k
               \<and> e = Error (''validateResponse: missing required key '' @ dq @ k @ dq))"
  by (induction ks) (auto simp: call_hasOwnProperty_def split: sum.splits)

text \<open>When the response has no own property named \<^verbatim>\<open>hasOwnProperty\<close> and the required keys
  are strings, the call succeeds exactly when the response is an object or an array, and
  every key is among its own properties; the values are not looked at.\<close>

lemma validateResponse_characterisation:
  assumes "\<not> has_own response ''hasOwnProperty''"
  shows "validateResponse response (JArr (map JStr ks)) = Inr True
         \<longleftrightarrow> typeof response = ''object'' \<and> response \<noteq> JNull \<and> list_all (has_own response) ks"
proof -
  have "check_keys response (map JStr ks) = Inr True \<longleftrightarrow> list_all (has_own response) ks"
    using check_keys_strings [OF assms, of ks]
    by (cases "check_keys response (map JStr ks)") (auto simp: list_all_iff)
  then show ?thesis
    by (cases response) (simp_all add: validateResponse_def)
qed

theorem validateResponse_characterisation_witness:
  "validateResponse (JArr [JNum 1]) (JArr (map JStr [''length'', ''0''])) = Inr True
   \<and> validateResponse (JObj [(''a'', JNull)]) (JArr (map JStr [''a''])) = Inr True
   \<and> validateResponse (JObj [(''a'', JNull)]) (JArr (map JStr [''a'', ''b''])) \<noteq> Inr True"
proof -
  have a: "\<not> has_own (JArr [JNum 1]) ''hasOwnProperty''"
    by (simp add: index_entries_def show_nat.simps digit_def)
  have b: "\<not> has_own (JObj [(''a'', JNull)]) ''hasOwnProperty''"
    by simp
  have 1: "typeof (JArr [JNum 1]) = ''object'' \<and> JArr [JNum 1] \<noteq> JNull
           \<and> list_all (has_own (JArr [JNum 1])) [''length'', ''0'']"
    by (simp add: index_entries_def show_nat.simps digit_def)
  have 2: "typeof (JObj [(''a'', JNull)]) = ''object'' \<and> JObj [(''a'', JNull)] \<noteq> JNull
           \<and> list_all (has_own (JObj [(''a'', JNull)])) [''a'']"
    by simp
  have 3: "\<not> list_all (has_own (JObj [(''a'', JNull)])) [''a'', ''b'']"
    by simp
  from validateResponse_characterisation [OF a, of "[''length'', ''0'']"] 1
  have r1: "validateResponse (JArr [JNum 1]) (JArr (map JStr [''length'', ''0''])) = Inr True"
    by blast
  from validateResponse_characterisation [OF b, of "[''a'']"] 2
  have r2: "validateResponse (JObj [(''a'', JNull)]) (JArr (map JStr [''a''])) = Inr True"
    by blast
  from validateResponse_characterisation [OF b, of "[''a'', ''b'']"] 3
  have r3: "validateResponse (JObj [(''a'', JNull)]) (JArr (map JStr [''a'', ''b''])) \<noteq> Inr True"
    by blast
  from r1 r2 r3 show ?thesis by blast
qed

text \<open>
  C6. The two examples behave as stated (lemma \<open>validateResponse_examples\<close>), and the
  general statement holds for responses without an own property named \<^verbatim>\<open>hasOwnProperty\<close>
  (lemma \<open>validateResponse_characterisation\<close>). It fails for a response that has one: the
  call \<^verbatim>\<open>response.hasOwnProperty(key)\<close> then finds a number where the method is expected,
  and throws although the response is an object, the keys are an array and the key
  \<^verbatim>\<open>a\<close> is present.
\<close>

theorem validateResponse_shadowed_method:
  "validateResponse (JObj [(''hasOwnProperty'', JNum 1), (''a'', JNum 1)]) (JArr [JStr ''a'']) =
     Inl (TypeError ''response.hasOwnProperty is not a function'')"
  by (simp add: validateResponse_def call_hasOwnProperty_def)

theorem validateResponse_shadowed_method_witness:
  "typeof (JObj [(''hasOwnProperty'', JNum 1), (''a'', JNum 1)]) = ''object''
   \<and> has_own (JObj [(''hasOwnProperty'', JNum 1), (''a'', JNum 1)]) ''a''
   \<and> isl (validateResponse (JObj [(''hasOwnProperty'', JNum 1), (''a'', JNum 1)])
            (JArr [JStr ''a'']))"
  using validateResponse_shadowed_method by simp

subsection \<open>fetchData\<close>

lemma build_keyed_config: "build_config parse [(''API_KEY'', ''k'')] [] = Inr keyed_config"
  by (simp add: build_config_def loadOverrides_def object_assign_def DEFAULTS_def json_clone_def
      keyed_config_def validate_def not_a_string_def is_http_url_def startsWith_def)

lemma logError_frame:
  "writer_calls (logError e env st) = writer_calls st"
  "requests (logError e env st) = requests st"
  "cells (logError e env st) = cells st"
  "cleared (logError e env st) = cleared st"
  "triggers (logError e env st) = triggers st"
  by (simp_all add: logError_def show_toast_def Let_def split: option.splits)

text \<open>\<^verbatim>\<open>validateResponse(json)\<close> has no second argument, so it throws for every response.\<close>

lemma validateResponse_one_argument: "\<exists>e. validateResponse json JUndefined = Inl e"
  by (simp add: validateResponse_def)

lemma fetch_endpoint_fails: "\<exists>e st1. fetch_endpoint env config endpoint st = (Inl e, st1)"
  by (auto simp: fetch_endpoint_def Let_def validateResponse_def split: sum.splits)

lemma fetch_endpoints_result:
  "fetch_endpoints env config eps acc st = (Inr allData, st1)
   \<Longrightarrow> eps = [] \<and> allData = acc \<and> st1 = st"
  using fetch_endpoint_fails [of env config "hd eps" st]
  by (cases eps) (auto split: prod.splits sum.splits)

lemma fetchData_try_fails: "\<exists>e st1. fetchData_try view c env st = (Inl e, st1)"
proof (cases "apiUrl view = [] \<or> \<not> isArray (endpoints view)")
  case True
  then show ?thesis by (auto simp: fetchData_try_def)
next
  case False
  show ?thesis
  proof (cases "fetch_endpoints env view (elements (endpoints view)) [] st")
    case (Pair r st1)
    show ?thesis
    proof (cases r)
      case (Inl e)
      with Pair False show ?thesis by (auto simp: fetchData_try_def)
    next
      case (Inr allData)
      with Pair fetch_endpoints_result have "allData = []" by blast
      with Pair Inr False show ?thesis
        by (auto simp: fetchData_try_def writeData_def writeData_with_def Let_def)
    qed
  qed
qed

text \<open>Whatever \<^verbatim>\<open>getApiConfig()\<close> returns and whatever the platform answers, \<^verbatim>\<open>fetchData\<close>
  ends in the \<^verbatim>\<open>catch\<close>.\<close>

lemma fetchData_never_succeeds: "\<exists>e st1. fetchData_with view c env st = (Inl e, st1)"
  using fetchData_try_fails [of view c env st] by (auto simp: fetchData_with_def)

text \<open>
  C1. With the two default endpoints, answered with \<^verbatim>\<open>{data:[r1,r2]}\<close> and \<^verbatim>\<open>{data:[r3]}\<close>,
  \<^verbatim>\<open>fetchData\<close> does not write \<^verbatim>\<open>[r1,r2,r3]\<close> and return \<^verbatim>\<open>{success:true, rows:3}\<close>:
  \<^verbatim>\<open>getApiConfig\<close> returns the endpoints as an object, \<^verbatim>\<open>Array.isArray\<close> rejects it, and the
  run throws before any request, without calling the writer. Were the endpoints handed
  over as the array of the two paths, the first response would be rejected by
  \<^verbatim>\<open>validateResponse(json)\<close>, again without a call of the writer.
\<close>

theorem fetchData_two_endpoints_throws:
  "build_config parse [(''API_KEY'', ''k'')] [] = Inr keyed_config
   \<and> fetchData (freeze keyed_config) (two_answers r1 r2 r3) st =
       (Inl (Error ''Invalid API configuration''),
        logError (Error ''Invalid API configuration'') (two_answers r1 r2 r3) st)
   \<and> writer_calls (snd (fetchData (freeze keyed_config) (two_answers r1 r2 r3) st)) =
       writer_calls st
   \<and> requests (snd (fetchData (freeze keyed_config) (two_answers r1 r2 r3) st)) = requests st
   \<and> fst (fetchData_with
        ((getApiConfig (freeze keyed_config))
           \<lparr>endpoints := JArr [JStr ''/pets'', JStr ''/owners'']\<rparr>)
        (freeze keyed_config) (two_answers r1 r2 r3) st) =
       Inl (Error ''validateResponse: requiredKeys must be an array of strings'')
   \<and> writer_calls (snd (fetchData_with
        ((getApiConfig (freeze keyed_config))
           \<lparr>endpoints := JArr [JStr ''/pets'', JStr ''/owners'']\<rparr>)
        (freeze keyed_config) (two_answers r1 r2 r3) st)) = writer_calls st"
proof -
  have run: "fetchData (freeze keyed_config) (two_answers r1 r2 r3) st =
       (Inl (Error ''Invalid API configuration''),
        logError (Error ''Invalid API configuration'') (two_answers r1 r2 r3) st)"
    by (simp add: fetchData_def fetchData_with_def fetchData_try_def getApiConfig_def freeze_def
        keyed_config_def object_assign_def)
  have arr: "fetchData_with
        ((getApiConfig (freeze keyed_config))
           \<lparr>endpoints := JArr [JStr ''/pets'', JStr ''/owners'']\<rparr>)
        (freeze keyed_config) (two_answers r1 r2 r3) st =
       (Inl (Error ''validateResponse: requiredKeys must be an array of strings''),
        logError (Error ''validateResponse: requiredKeys must be an array of strings'')
          (two_answers r1 r2 r3)
          (st\<lparr>requests := requests st @
                 [(''https://api.example.com/petsync/pets'',
                   endpoint_options (getApiConfig (freeze keyed_config)))]\<rparr>))"
    by (simp add: fetchData_with_def fetchData_try_def getApiConfig_def freeze_def
        keyed_config_def object_assign_def fetch_endpoint_def two_answers_def
        validateResponse_def endpoint_options_def Let_def)
  show ?thesis
    by (simp add: build_keyed_config run arr logError_frame)
qed

theorem fetchData_two_endpoints_throws_witness:
  "fst (fetchData (freeze keyed_config) (two_answers (JArr [JNum 1]) (JArr [JNum 2]) (JArr [JNum 3]))
          blank_state) = Inl (Error ''Invalid API configuration'')
   \<and> writer_calls (snd (fetchData (freeze keyed_config)
          (two_answers (JArr [JNum 1]) (JArr [JNum 2]) (JArr [JNum 3])) blank_state)) = []"
proof -
  note run = fetchData_two_endpoints_throws
    [of "\<lambda>s. Inl (SyntaxError [])" "JArr [JNum 1]" "JArr [JNum 2]" "JArr [JNum 3]" blank_state]
  have none: "writer_calls blank_state = []"
    by (simp add: blank_state_def)
  from run have "fst (fetchData (freeze keyed_config)
      (two_answers (JArr [JNum 1]) (JArr [JNum 2]) (JArr [JNum 3])) blank_state) =
      Inl (Error ''Invalid API configuration'')"
    by (metis fst_conv)
  moreover from run have "writer_calls (snd (fetchData (freeze keyed_config)
      (two_answers (JArr [JNum 1]) (JArr [JNum 2]) (JArr [JNum 3])) blank_state)) =
      writer_calls blank_state"
    by blast
  ultimately show ?thesis by (simp only: none simp_thms)
qed







subsection \<open>Empty endpoints\<close>


lemma validate_Inr:
  "validate config = Inr () \<longleftrightarrow>
     \<not> not_a_string config ''apiUrl''
     \<and> (case get_prop config ''apiUrl'' of JStr u \<Rightarrow> is_http_url u | _ \<Rightarrow> False)
     \<and> \<not> not_a_string config ''apiKey''
     \<and> truthy (get_prop config ''endpoints'')
     \<and> typeof (get_prop config ''endpoints'') = ''object''
     \<and> check_endpoints (own_entries (get_prop config ''endpoints'')) = Inr ()
     \<and> \<not> not_a_string config ''sheetName''
     \<and> \<not> not_a_string config ''fullRefreshRange''
     \<and> \<not> not_a_string config ''incrementalRefreshRange''
     \<and> \<not> not_a_string config ''triggerName''"
  by (simp add: validate_def split: sum.splits) blast

text \<open>The record kept by \<open>freeze\<close> loses nothing of a validated configuration: each of its
  fields is the string (for the endpoints, the value) the merged object holds.\<close>

lemma freeze_validated:
  assumes "validate cfg = Inr ()"
  shows "get_prop cfg ''apiUrl'' = JStr (apiUrl (freeze cfg))
       \<and> get_prop cfg ''apiKey'' = JStr (apiKey (freeze cfg))
       \<and> get_prop cfg ''endpoints'' = endpoints (freeze cfg)
       \<and> get_prop cfg ''sheetName'' = JStr (sheetName (freeze cfg))
       \<and> get_prop cfg ''fullRefreshRange'' = JStr (fullRefreshRange (freeze cfg))
       \<and> get_prop cfg ''incrementalRefreshRange'' = JStr (incrementalRefreshRange (freeze cfg))
       \<and> get_prop cfg ''triggerName'' = JStr (triggerName (freeze cfg))"
proof -
  have str: "\<And>f. \<not> not_a_string cfg f \<Longrightarrow> get_prop cfg f = JStr (string_value (get_prop cfg f))"
  proof -
    fix f assume "\<not> not_a_string cfg f"
    then show "get_prop cfg f = JStr (string_value (get_prop cfg f))"
      by (cases "get_prop cfg f") (simp_all add: not_a_string_def)
  qed
  from assms str show ?thesis
    by (simp add: validate_Inr freeze_def)
qed



text \<open>With the endpoints handed over as an empty array the loop makes no request either;
  the writer is then called with an empty list, which it rejects.\<close>

lemma fetchData_with_empty_array:
  assumes "apiUrl view \<noteq> []" and "endpoints view = JArr []"
  shows "fst (fetchData_with view c env st) =
           Inl (Error ''writeData received invalid data format'')
         \<and> requests (snd (fetchData_with view c env st)) = requests st
         \<and> cells (snd (fetchData_with view c env st)) = cells st"
  using assms
  by (simp add: fetchData_with_def fetchData_try_def writeData_def writeData_with_def Let_def
      logError_frame)

subsection \<open>callApi\<close>

lemma show_int_404: "show_int 404 = ''404''"
  by code_simp

text \<open>
  C5. For a non-empty URL and any options: \<^verbatim>\<open>callApi\<close> issues the request with
  \<^verbatim>\<open>muteHttpExceptions\<close> set, so a response with a status outside 200..299 comes back as a
  response. On status 404 the call throws an error whose message holds the code and the
  raw body, after the request was handed to the platform and the timing line was logged;
  on a status from 200 to 299 with a body that parses, it returns the parsed value.
\<close>

theorem callApi_status_after_call:
  assumes "u \<noteq> []"
    and "url_fetch env (length (requests st)) u
           (fetchOptions env (if truthy options then options else JObj [])) = Inr response"
  shows "(responseCode response = 404 \<longrightarrow>
            fst (callApi (JStr u) options env st) =
              Inl (Error (''callApi: HTTP 404 - '' @ contentText response)))
       \<and> (200 \<le> responseCode response \<and> responseCode response < 300
            \<and> json_parse env (contentText response) = Inr v \<longrightarrow>
            fst (callApi (JStr u) options env st) = Inr v)
       \<and> requests (snd (callApi (JStr u) options env st)) =
            requests st @ [(u, fetchOptions env (if truthy options then options else JObj []))]
       \<and> get_prop (fetchOptions env (if truthy options then options else JObj []))
            ''muteHttpExceptions'' = JBool True
       \<and> logger (snd (callApi (JStr u) options env st)) =
            logger st @
              [''callApi: '' @
               string_value (get_prop (fetchOptions env
                  (if truthy options then options else JObj [])) ''method'') @
               '' '' @ u @ '' took '' @
               show_int (clock env (Suc (clock_reads st)) - clock env (clock_reads st)) @ ''ms'']"
proof -
  let ?opts = "fetchOptions env (if truthy options then options else JObj [])"
  have mute: "get_prop ?opts ''muteHttpExceptions'' = JBool True"
    by (simp add: fetchOptions_def)
  from assms have nf: "responseCode response = 404 \<longrightarrow>
            fst (callApi (JStr u) options env st) =
              Inl (Error (''callApi: HTTP 404 - '' @ contentText response))"
    by (simp add: callApi_def Let_def read_clock_def show_int_404)
  from assms have ok: "200 \<le> responseCode response \<and> responseCode response < 300
            \<and> json_parse env (contentText response) = Inr v \<longrightarrow>
            fst (callApi (JStr u) options env st) = Inr v"
    by (simp add: callApi_def Let_def read_clock_def)
  from assms have rq: "requests (snd (callApi (JStr u) options env st)) = requests st @ [(u, ?opts)]"
    by (simp add: callApi_def Let_def read_clock_def split: sum.splits)
  from assms have lg: "logger (snd (callApi (JStr u) options env st)) =
            logger st @
              [''callApi: '' @ string_value (get_prop ?opts ''method'') @
               '' '' @ u @ '' took '' @
               show_int (clock env (Suc (clock_reads st)) - clock env (clock_reads st)) @ ''ms'']"
    by (simp add: callApi_def Let_def read_clock_def split: sum.splits)
  from nf ok rq mute lg show ?thesis by blast
qed

theorem callApi_status_after_call_witness:
  "fst (callApi (JStr ''https://api.example.com/petsync/pets'') JUndefined
          (answering 404 ''Not Found'') blank_state) =
     Inl (Error ''callApi: HTTP 404 - Not Found'')
   \<and> fst (callApi (JStr ''https://api.example.com/petsync/pets'') JUndefined
          (answering 200 ''{}'') blank_state) = Inr (JObj [])
   \<and> logger (snd (callApi (JStr ''https://api.example.com/petsync/pets'') JUndefined
          (answering 404 ''Not Found'') blank_state)) =
       [''callApi: GET https://api.example.com/petsync/pets took 7ms'']"
proof -
  have u: "''https://api.example.com/petsync/pets'' \<noteq> []" by simp
  have f: "url_fetch (answering 404 ''Not Found'') (length (requests blank_state))
             ''https://api.example.com/petsync/pets''
             (fetchOptions (answering 404 ''Not Found'') (if truthy JUndefined then JUndefined else JObj [])) =
           Inr \<lparr>responseCode = 404, contentText = ''Not Found''\<rparr>"
    by (simp add: answering_def)
  have g: "url_fetch (answering 200 ''{}'') (length (requests blank_state))
             ''https://api.example.com/petsync/pets''
             (fetchOptions (answering 200 ''{}'') (if truthy JUndefined then JUndefined else JObj [])) =
           Inr \<lparr>responseCode = 200, contentText = ''{}''\<rparr>"
    by (simp add: answering_def)
  have p: "json_parse (answering 200 ''{}'') ''{}'' = Inr (JObj [])"
    by (simp add: answering_def)
  have d: "show_int (clock (answering 404 ''Not Found'') (Suc (clock_reads blank_state))
             - clock (answering 404 ''Not Found'') (clock_reads blank_state)) = ''7''"
    by (simp add: answering_def blank_state_def show_int_def show_nat.simps digit_def)
  have m: "string_value (get_prop (fetchOptions (answering 404 ''Not Found'')
             (if truthy JUndefined then JUndefined else JObj [])) ''method'') = ''GET''"
    by (simp add: fetchOptions_def)
  have l: "logger blank_state = []" by (simp add: blank_state_def)
  note a = callApi_status_after_call [OF u f, of "JNull"]
  note b = callApi_status_after_call [OF u g, of "JObj []"]
  from a have 1: "fst (callApi (JStr ''https://api.example.com/petsync/pets'') JUndefined
          (answering 404 ''Not Found'') blank_state) =
     Inl (Error ''callApi: HTTP 404 - Not Found'')" by simp
  from b p have 2: "fst (callApi (JStr ''https://api.example.com/petsync/pets'') JUndefined
          (answering 200 ''{}'') blank_state) = Inr (JObj [])" by simp
  from a have "logger (snd (callApi (JStr ''https://api.example.com/petsync/pets'') JUndefined
          (answering 404 ''Not Found'') blank_state)) =
       logger blank_state @
              [''callApi: '' @ string_value (get_prop (fetchOptions (answering 404 ''Not Found'')
             (if truthy JUndefined then JUndefined else JObj [])) ''method'') @
               '' '' @ ''https://api.example.com/petsync/pets'' @ '' took '' @
               show_int (clock (answering 404 ''Not Found'') (Suc (clock_reads blank_state))
             - clock (answering 404 ''Not Found'') (clock_reads blank_state)) @ ''ms'']" by blast
  then have 3: "logger (snd (callApi (JStr ''https://api.example.com/petsync/pets'') JUndefined
          (answering 404 ''Not Found'') blank_state)) =
       [''callApi: GET https://api.example.com/petsync/pets took 7ms'']"
    unfolding d m l by simp
  from 1 2 3 show ?thesis by blast
qed

subsection \<open>writeData\<close>


lemma target_sheet_calls [simp]:
  "target_sheet n (st\<lparr>writer_calls := w\<rparr>) = target_sheet n st"
  by (simp add: target_sheet_def split: jsval.splits)




text \<open>The branch is there for a ranges object that does carry the flag: with
  \<^verbatim>\<open>fullRefresh: true\<close> added to the ranges, the full-refresh range is cleared.\<close>

lemma writeData_with_flag_clears:
  "cleared (snd (writeData_with
      (JObj ((''fullRefresh'', JBool True) # own_entries (getSheetRanges (freeze keyed_config))))
      (two_answers JNull JNull JNull) (JArr [JArr [JNum 1]]) blank_state)) = [(''Pets'', ''A2:Z'')]"
  by (simp add: writeData_with_def getSheetRanges_def freeze_def keyed_config_def
      getRange_a1_def two_answers_def setValues_def Let_def clearContent_def target_sheet_def
      blank_state_def)

subsection \<open>Construction of the configuration\<close>


lemma check_endpoints_ok:
  "check_endpoints es = Inr () \<Longrightarrow> (n, p) \<in> set es \<Longrightarrow> \<exists>q. p = JStr q \<and> startsWith q ''/''"
  by (induction es) (auto split: if_splits jsval.splits)






subsection \<open>mergeConfig\<close>


lemma merge_entries_Nil: "merge_entries merged [] = Inr merged"
  by simp

declare merge_entries.simps [simp del]
declare mergeConfig.simps [simp del]
declare merge_entries_Nil [simp]


























subsection \<open>The configuration is not mutated\<close>



lemma index_entries_values: "map snd (index_entries xs) = xs"
  by (simp add: index_entries_def)

lemma string_entries_items:
  "list_all (\<lambda>e. typeof (snd e) = ''string'') (index_entries xs) \<Longrightarrow>
   list_all (\<lambda>x. typeof x = ''string'') xs"
proof -
  assume "list_all (\<lambda>e. typeof (snd e) = ''string'') (index_entries xs)"
  then have "list_all (\<lambda>x. typeof x = ''string'') (map snd (index_entries xs))"
    by (simp add: list_all_iff)
  then show ?thesis by (simp add: index_entries_values)
qed



















lemma validated_endpoints_strings:
  assumes "validate cfg = Inr ()"
  shows "list_all (\<lambda>e. typeof (snd e) = ''string'') (own_entries (endpoints (freeze cfg)))"
proof -
  from assms have "check_endpoints (own_entries (get_prop cfg ''endpoints'')) = Inr ()"
    by (simp add: validate_Inr)
  then have "\<And>n p. (n, p) \<in> set (own_entries (get_prop cfg ''endpoints''))
      \<Longrightarrow> typeof p = ''string''"
    using check_endpoints_ok by fastforce
  then show ?thesis
    by (auto simp: freeze_def list_all_iff)
qed





text \<open>Outside the three accessors the store is not protected: \<^verbatim>\<open>_getRawConfig\<close> hands out
  \<^verbatim>\<open>_config\<close> itself, and the freeze does not reach its endpoints.\<close>

lemma raw_config_endpoints_writable:
  "read_back
     (set_property keyed_store
        (navigate keyed_store (fst (heap_getRawConfig 1 keyed_store)) [''endpoints''])
        ''fetchPets'' (Prim (JStr ''/changed'')))
     (Ref 1) \<noteq> keyed_config"
  by (simp add: heap_getRawConfig_def keyed_store_def field_def set_property_def read_back_def
      keyed_config_def)


lemma alloc_fields_strings_eq:
  "list_all (\<lambda>e. typeof (snd e) = ''string'') fs \<Longrightarrow>
   alloc_fields fs h = (map (\<lambda>e. (fst e, Prim (snd e))) fs, h)"
proof (induction fs arbitrary: h)
  case Nil
  then show ?case by simp
next
  case (Cons f fs)
  then obtain s where f: "snd f = JStr s" by (cases "snd f") auto
  from Cons.prems have "list_all (\<lambda>e. typeof (snd e) = ''string'') fs" by simp
  from Cons.IH [OF this, of h] f show ?case by simp
qed

lemma alloc_items_strings_eq:
  "list_all (\<lambda>x. typeof x = ''string'') xs \<Longrightarrow>
   alloc_items i xs h =
     (map (\<lambda>e. (fst e, Prim (snd e))) (zip (map show_nat [i ..< i + length xs]) xs), h)"
proof (induction xs arbitrary: i h)
  case Nil
  then show ?case by simp
next
  case (Cons x xs)
  then obtain s where x: "x = JStr s" by (cases x) auto
  from Cons.prems have "list_all (\<lambda>x. typeof x = ''string'') xs" by simp
  from Cons.IH [OF this, of "Suc i" h] x show ?case
    by (simp add: upt_conv_Cons del: upt_Suc)
qed

lemma update_map_values:
  "AList.update k (f v) (map (\<lambda>e. (fst e, f (snd e))) al) =
   map (\<lambda>e. (fst e, f (snd e))) (AList.update k v al)"
  by (induction al) auto

lemma object_assign_map_values:
  "object_assign (map (\<lambda>e. (fst e, f (snd e))) tgt) (map (\<lambda>e. (fst e, f (snd e))) src) =
   map (\<lambda>e. (fst e, f (snd e))) (object_assign tgt src)"
  unfolding object_assign_def
  by (induction src arbitrary: tgt) (auto simp: update_map_values)

text \<open>For a validated configuration, what the accessors put into the store reads back as
  the values of \<open>getApiConfig\<close>, \<open>getSheetRanges\<close> and \<open>getTriggerName\<close>.\<close>

lemma heap_accessors_agree:
  assumes "validate cfg = Inr ()" and "install_config (freeze cfg) = (h0, r)"
  shows "read_back (snd (heap_getApiConfig r h0)) (fst (heap_getApiConfig r h0)) =
           JObj [(''apiUrl'', JStr (apiUrl (getApiConfig (freeze cfg)))),
                 (''apiKey'', JStr (apiKey (getApiConfig (freeze cfg)))),
                 (''endpoints'', endpoints (getApiConfig (freeze cfg)))]"
    and "read_back (snd (heap_getSheetRanges r h0)) (fst (heap_getSheetRanges r h0)) =
           getSheetRanges (freeze cfg)"
    and "fst (heap_getTriggerName r h0) = Prim (JStr (getTriggerName (freeze cfg)))"
proof -
  let ?c = "freeze cfg"
  note strings = validated_endpoints_strings [OF assms(1)]
  from assms(1) have obj: "truthy (endpoints ?c)" "typeof (endpoints ?c) = ''object''"
    by (simp_all add: validate_Inr freeze_def)
  have wrap: "\<And>es. map ((\<lambda>d. (fst d, case snd d of Prim v \<Rightarrow> v | Ref c \<Rightarrow> JUndefined))
                        \<circ> (\<lambda>e. (fst e, Prim (snd e)))) es = es"
    by (simp add: comp_def)
  have assign: "\<And>es. object_assign [] (map (\<lambda>e. (fst e, Prim (snd e))) es) =
                  map (\<lambda>e. (fst e, Prim (snd e))) (object_assign [] es)"
    using object_assign_map_values [of Prim "[]"] by simp
  have store: "h0 = [\<lparr>props = map (\<lambda>e. (fst e, Prim (snd e))) (own_entries (endpoints ?c)),
                      frozen = False, is_array = isArray (endpoints ?c)\<rparr>,
                     \<lparr>props =
                        [(''apiUrl'', Prim (JStr (apiUrl ?c))),
                         (''apiKey'', Prim (JStr (apiKey ?c))),
                         (''endpoints'', Ref 0),
                         (''sheetName'', Prim (JStr (sheetName ?c))),
                         (''fullRefreshRange'', Prim (JStr (fullRefreshRange ?c))),
                         (''incrementalRefreshRange'', Prim (JStr (incrementalRefreshRange ?c))),
                         (''triggerName'', Prim (JStr (triggerName ?c)))],
                       frozen = True, is_array = False\<rparr>] \<and> r = 1"
  proof (cases "endpoints ?c")
    case (JObj fs)
    with strings have "alloc_fields fs [] = (map (\<lambda>e. (fst e, Prim (snd e))) fs, [])"
      by (simp add: alloc_fields_strings_eq)
    with JObj assms(2) show ?thesis by (auto simp: install_config_def)
  next
    case (JArr xs)
    with strings have "list_all (\<lambda>x. typeof x = ''string'') xs"
      by (simp add: string_entries_items)
    then have "alloc_items 0 xs [] = (map (\<lambda>e. (fst e, Prim (snd e))) (index_entries xs), [])"
      by (simp add: alloc_items_strings_eq index_entries_def)
    with JArr assms(2) show ?thesis by (auto simp: install_config_def)
  qed (use obj in simp_all)
  then have h0: "h0 ! 0 = \<lparr>props = map (\<lambda>e. (fst e, Prim (snd e))) (own_entries (endpoints ?c)),
                      frozen = False, is_array = isArray (endpoints ?c)\<rparr>"
    and r: "r = 1" and len: "length h0 = 2"
    by simp_all
  from store show "read_back (snd (heap_getApiConfig r h0)) (fst (heap_getApiConfig r h0)) =
           JObj [(''apiUrl'', JStr (apiUrl (getApiConfig ?c))),
                 (''apiKey'', JStr (apiKey (getApiConfig ?c))),
                 (''endpoints'', endpoints (getApiConfig ?c))]"
    by (simp add: heap_getApiConfig_def Let_def read_back_def field_def enumerable_def
        getApiConfig_def assign wrap)
  from store show "read_back (snd (heap_getSheetRanges r h0)) (fst (heap_getSheetRanges r h0)) =
           getSheetRanges ?c"
    by (simp add: heap_getSheetRanges_def read_back_def field_def getSheetRanges_def)
  from store show "fst (heap_getTriggerName r h0) = Prim (JStr (getTriggerName ?c))"
    by (simp add: heap_getTriggerName_def field_def getTriggerName_def)
qed

end
